theory Spec2Isabelle
  imports Complex_Main
begin

section \<open>Vectors and library functions\<close>

text \<open>
  The numpy arrays of three floats are triples of reals; every float of the program is
  read as a real number, so all statements below are about exact real arithmetic. Where
  the rounding of the program's float32 arrays decides a property, the text says so.
\<close>

type_synonym vec3 = "real \<times> real \<times> real"

fun vadd :: "vec3 \<Rightarrow> vec3 \<Rightarrow> vec3" where
  "vadd (a, b, c) (x, y, z) = (a + x, b + y, c + z)"

fun vsub :: "vec3 \<Rightarrow> vec3 \<Rightarrow> vec3" where
  "vsub (a, b, c) (x, y, z) = (a - x, b - y, c - z)"

fun smul :: "vec3 \<Rightarrow> real \<Rightarrow> vec3" where
  "smul (a, b, c) k = (a * k, b * k, c * k)"

fun sdiv :: "vec3 \<Rightarrow> real \<Rightarrow> vec3" where
  "sdiv (a, b, c) k = (a / k, b / k, c / k)"

text \<open>\<^verbatim>\<open>np.linalg.norm\<close> and \<^verbatim>\<open>np.cross\<close> on three-vectors.\<close>

fun norm3 :: "vec3 \<Rightarrow> real" where
  "norm3 (a, b, c) = sqrt (a * a + b * b + c * c)"

fun cross :: "vec3 \<Rightarrow> vec3 \<Rightarrow> vec3" where
  "cross (a, b, c) (x, y, z) = (b * z - c * y, c * x - a * z, a * y - b * x)"

text \<open>\<^verbatim>\<open>math.atan2(y, x)\<close>, the angle of the point \<open>(x, y)\<close> in \<open>(-pi, pi]\<close>.\<close>

definition atan2 :: "real \<Rightarrow> real \<Rightarrow> real" where
  "atan2 y x =
     (if 0 < x then arctan (y / x)
      else if x < 0 \<and> 0 \<le> y then arctan (y / x) + pi
      else if x < 0 \<and> y < 0 then arctan (y / x) - pi
      else if 0 < y then pi / 2
      else if y < 0 then - (pi / 2)
      else 0)"

section \<open>The graphics commands issued by the program\<close>

text \<open>
  Immediate-mode OpenGL calls are the program's output. A drawing method is modelled by
  the list of calls it issues, in order.
\<close>

datatype gl_cap = GL_LIGHTING | GL_TEXTURE_2D

datatype gl_prim = GL_LINE_LOOP | GL_POINTS

datatype gl_cmd =
    glPushMatrix
  | glPopMatrix
  | glTranslatef real real real
  | glRotatef real real real real
  | glEnable gl_cap
  | glDisable gl_cap
  | glBindTexture gl_cap int
  | glColor3f real real real
  | glColor4f real real real real
  | glPointSize real
  | gluSphere real nat nat
  | glBegin gl_prim
  | glEnd
  | glVertex3f real real real

text \<open>The vertices among a list of calls, in the order they are issued.\<close>

fun vertices :: "gl_cmd list \<Rightarrow> vec3 list" where
  "vertices [] = []"
| "vertices (glVertex3f x y z # cs) = (x, y, z) # vertices cs"
| "vertices (c # cs) = vertices cs"

section \<open>planet.py\<close>

record planet =
  name :: string
  radius :: real
  distance :: real
  orbit_speed :: real
  rotation_speed :: real
  texture_id :: int
  color :: vec3
  orbit_angle :: real
  rotation_angle :: real

text \<open>
  \<^verbatim>\<open>Planet.__init__\<close>. The global numpy generator is passed explicitly: \<open>U g lo hi\<close> is
  \<^verbatim>\<open>np.random.uniform(lo, hi)\<close> in generator state \<open>g\<close>, returning the draw and the next
  state. The constructor has no check and no raise: it stores its arguments and draws the
  two start angles one after the other. (The GLU quadric it allocates is not modelled.)
\<close>

definition Planet_init ::
  "('g \<Rightarrow> real \<Rightarrow> real \<Rightarrow> real \<times> 'g) \<Rightarrow> 'g \<Rightarrow> string \<Rightarrow> real \<Rightarrow> real \<Rightarrow> real \<Rightarrow> real \<Rightarrow> int \<Rightarrow> vec3
     \<Rightarrow> planet \<times> 'g" where
  "Planet_init U g nm r d os rs tid col =
     (let (a1, g1) = U g 0 360;
          (a2, g2) = U g1 0 360
      in (\<lparr>name = nm, radius = r, distance = d, orbit_speed = os, rotation_speed = rs,
           texture_id = tid, color = col, orbit_angle = a1, rotation_angle = a2\<rparr>, g2))"

text \<open>The default of the \<^verbatim>\<open>color\<close> argument.\<close>

definition default_color :: vec3 where
  "default_color = (0.8, 0.8, 0.8)"

text \<open>\<^verbatim>\<open>Planet.update\<close>: one addition and at most one subtraction of 360 per angle.\<close>

definition update :: "planet \<Rightarrow> real \<Rightarrow> planet" where
  "update p delta_time =
     (let oa = orbit_angle p + orbit_speed p * delta_time;
          oa' = (if oa \<ge> 360 then oa - 360 else oa);
          ra = rotation_angle p + rotation_speed p * delta_time;
          ra' = (if ra \<ge> 360 then ra - 360 else ra)
      in p\<lparr>orbit_angle := oa', rotation_angle := ra'\<rparr>)"

text \<open>The frames of a simulation: \<open>n\<close> calls of \<^verbatim>\<open>update(1.0)\<close>.\<close>

fun ticks :: "nat \<Rightarrow> planet \<Rightarrow> planet" where
  "ticks 0 p = p"
| "ticks (Suc n) p = ticks n (update p 1)"

definition get_position :: "planet \<Rightarrow> vec3" where
  "get_position p =
     (let angle_rad = orbit_angle p * pi / 180
      in (distance p * cos angle_rad, 0, distance p * sin angle_rad))"

definition draw :: "planet \<Rightarrow> gl_cmd list" where
  "draw p =
     (case get_position p of (x, y, z) \<Rightarrow>
        [glPushMatrix, glTranslatef x y z, glRotatef (rotation_angle p) 0 1 0]
        @ (if texture_id p \<ge> 0
           then [glEnable GL_TEXTURE_2D, glBindTexture GL_TEXTURE_2D (texture_id p)]
           else [glDisable GL_TEXTURE_2D,
                 glColor3f (fst (color p)) (fst (snd (color p))) (snd (snd (color p)))])
        @ [gluSphere (radius p) 32 32, glDisable GL_TEXTURE_2D, glPopMatrix])"




section \<open>camera.py\<close>

record camera =
  position :: vec3
  target :: vec3
  up :: vec3
  move_speed :: real
  rotation_speed :: real
  zoom_speed :: real
  distance :: real
  theta :: real
  phi :: real

text \<open>
  Dividing a numpy array by a zero norm does not give a direction: the components become
  \<^verbatim>\<open>nan\<close> or \<^verbatim>\<open>inf\<close>. The model makes that outcome an error value, so that a camera
  returned by an operation is one whose coordinates are numbers.
\<close>

datatype error = DivisionByZero | IndexError

definition normalize :: "vec3 \<Rightarrow> error + vec3" where
  "normalize v = (if norm3 v = 0 then Inl DivisionByZero else Inr (sdiv v (norm3 v)))"

text \<open>\<^verbatim>\<open>Camera.__init__\<close>.\<close>

definition Camera_init :: camera where
  "Camera_init =
     (let pos = (30, 20, 30); tgt = (0, 0, 0);
          d = norm3 (vsub pos tgt)
      in \<lparr>position = pos, target = tgt, up = (0, 1, 0),
          move_speed = 0.5, rotation_speed = 2, zoom_speed = 1,
          distance = d,
          theta = atan2 (fst pos) (snd (snd pos)) * 180 / pi,
          phi = arcsin (fst (snd pos) / d) * 180 / pi\<rparr>)"

definition update_position_from_spherical :: "camera \<Rightarrow> camera" where
  "update_position_from_spherical c =
     (let theta_rad = theta c * pi / 180;
          phi_rad = phi c * pi / 180;
          x = camera.distance c * cos phi_rad * sin theta_rad;
          y = camera.distance c * sin phi_rad;
          z = camera.distance c * cos phi_rad * cos theta_rad
      in c\<lparr>position := vadd (target c) (x, y, z)\<rparr>)"

definition recalculate_spherical :: "camera \<Rightarrow> error + camera" where
  "recalculate_spherical c =
     (case vsub (position c) (target c) of (dx, dy, dz) \<Rightarrow>
        let d = norm3 (dx, dy, dz)
        in if d = 0 then Inl DivisionByZero
           else Inr (c\<lparr>camera.distance := d,
                       theta := atan2 dx dz * 180 / pi,
                       phi := arcsin (dy / d) * 180 / pi\<rparr>))"

definition rotate_horizontal :: "camera \<Rightarrow> real \<Rightarrow> camera" where
  "rotate_horizontal c delta =
     update_position_from_spherical (c\<lparr>theta := theta c + delta * camera.rotation_speed c\<rparr>)"

definition rotate_vertical :: "camera \<Rightarrow> real \<Rightarrow> camera" where
  "rotate_vertical c delta =
     (let new_phi = phi c + delta * camera.rotation_speed c
      in update_position_from_spherical
           (if - 89 < new_phi \<and> new_phi < 89 then c\<lparr>phi := new_phi\<rparr> else c))"

definition move_forward :: "camera \<Rightarrow> error + camera" where
  "move_forward c =
     (case normalize (vsub (target c) (position c)) of
        Inl e \<Rightarrow> Inl e
      | Inr direction \<Rightarrow>
          Inr (c\<lparr>position := vadd (position c) (smul direction (move_speed c)),
                 target := vadd (target c) (smul direction (move_speed c))\<rparr>))"

definition move_backward :: "camera \<Rightarrow> error + camera" where
  "move_backward c =
     (case normalize (vsub (target c) (position c)) of
        Inl e \<Rightarrow> Inl e
      | Inr direction \<Rightarrow>
          Inr (c\<lparr>position := vsub (position c) (smul direction (move_speed c)),
                 target := vsub (target c) (smul direction (move_speed c))\<rparr>))"

definition move_left :: "camera \<Rightarrow> error + camera" where
  "move_left c =
     (case normalize (cross (vsub (target c) (position c)) (up c)) of
        Inl e \<Rightarrow> Inl e
      | Inr right \<Rightarrow>
          Inr (c\<lparr>position := vsub (position c) (smul right (move_speed c)),
                 target := vsub (target c) (smul right (move_speed c))\<rparr>))"

definition move_right :: "camera \<Rightarrow> error + camera" where
  "move_right c =
     (case normalize (cross (vsub (target c) (position c)) (up c)) of
        Inl e \<Rightarrow> Inl e
      | Inr right \<Rightarrow>
          Inr (c\<lparr>position := vadd (position c) (smul right (move_speed c)),
                 target := vadd (target c) (smul right (move_speed c))\<rparr>))"

definition move_up :: "camera \<Rightarrow> camera" where
  "move_up c =
     c\<lparr>position := vadd (position c) (smul (up c) (move_speed c)),
       target := vadd (target c) (smul (up c) (move_speed c))\<rparr>"

definition move_down :: "camera \<Rightarrow> camera" where
  "move_down c =
     c\<lparr>position := vsub (position c) (smul (up c) (move_speed c)),
       target := vsub (target c) (smul (up c) (move_speed c))\<rparr>"

definition zoom_in :: "camera \<Rightarrow> camera" where
  "zoom_in c =
     (let d = camera.distance c - zoom_speed c;
          d' = (if d < 10 then 10 else d)
      in update_position_from_spherical (c\<lparr>camera.distance := d'\<rparr>))"

definition zoom_out :: "camera \<Rightarrow> camera" where
  "zoom_out c =
     (let d = camera.distance c + zoom_speed c;
          d' = (if d > 500 then 500 else d)
      in update_position_from_spherical (c\<lparr>camera.distance := d'\<rparr>))"

definition reset_view :: "camera \<Rightarrow> error + camera" where
  "reset_view c = recalculate_spherical (c\<lparr>position := (30, 20, 30), target := (0, 0, 0)\<rparr>)"

text \<open>\<^verbatim>\<open>Camera.apply_view_matrix\<close> passes eye, look-at point and up vector to \<^verbatim>\<open>gluLookAt\<close>.\<close>

definition apply_view_matrix :: "camera \<Rightarrow> vec3 \<times> vec3 \<times> vec3" where
  "apply_view_matrix c = (position c, target c, up c)"

text \<open>The public mutations, and a sequence of them run from a camera state.\<close>

datatype cam_op =
    RotateHorizontal real
  | RotateVertical real
  | MoveForward
  | MoveBackward
  | MoveLeft
  | MoveRight
  | MoveUp
  | MoveDown
  | ZoomIn
  | ZoomOut
  | ResetView

fun cam_step :: "camera \<Rightarrow> cam_op \<Rightarrow> error + camera" where
  "cam_step c (RotateHorizontal delta) = Inr (rotate_horizontal c delta)"
| "cam_step c (RotateVertical delta) = Inr (rotate_vertical c delta)"
| "cam_step c MoveForward = move_forward c"
| "cam_step c MoveBackward = move_backward c"
| "cam_step c MoveLeft = move_left c"
| "cam_step c MoveRight = move_right c"
| "cam_step c MoveUp = Inr (move_up c)"
| "cam_step c MoveDown = Inr (move_down c)"
| "cam_step c ZoomIn = Inr (zoom_in c)"
| "cam_step c ZoomOut = Inr (zoom_out c)"
| "cam_step c ResetView = reset_view c"

fun cam_run :: "camera \<Rightarrow> cam_op list \<Rightarrow> error + camera" where
  "cam_run c [] = Inr c"
| "cam_run c (x # xs) = (case cam_step c x of Inl e \<Rightarrow> Inl e | Inr c' \<Rightarrow> cam_run c' xs)"

text \<open>The unit vector of yaw \<open>th\<close> and pitch \<open>ph\<close>, both in degrees.\<close>

definition spherical_direction :: "real \<Rightarrow> real \<Rightarrow> vec3" where
  "spherical_direction th ph =
     (cos (ph * pi / 180) * sin (th * pi / 180),
      sin (ph * pi / 180),
      cos (ph * pi / 180) * cos (th * pi / 180))"

text \<open>
  The relation between the eye and the spherical coordinates, and the well-formedness of
  a camera: that relation, the distance in \<open>[10, 500]\<close>, the pitch strictly inside
  \<open>(-89, 89)\<close>, and the two constants the operations rely on.
\<close>

definition cam_inv :: "camera \<Rightarrow> bool" where
  "cam_inv c \<longleftrightarrow>
     position c = vadd (target c) (smul (spherical_direction (theta c) (phi c)) (camera.distance c))"

definition cam_ok :: "camera \<Rightarrow> bool" where
  "cam_ok c \<longleftrightarrow>
     cam_inv c \<and> 10 \<le> camera.distance c \<and> camera.distance c \<le> 500
     \<and> - 89 < phi c \<and> phi c < 89 \<and> up c = (0, 1, 0) \<and> zoom_speed c = 1"

section \<open>renderer.py\<close>

text \<open>
  The renderer's own state is the viewport size and the texture table. The image
  library and the OpenGL driver are outside the repository: \<open>open_image\<close> is the result
  of \<^verbatim>\<open>Image.open\<close> and the conversions (\<open>None\<close> when any of them raises), \<open>upload_ok\<close>
  says whether the OpenGL calls that upload the image finish without raising. What the
  calls do to the outside is recorded in \<open>gl_world\<close>: the next free texture name, and
  the paths handed to \<^verbatim>\<open>Image.open\<close> so far.
\<close>

record renderer =
  width :: int
  height :: int
  textures :: "string \<rightharpoonup> int"

record gl_world =
  next_texture :: nat
  opened :: "string list"

record 'img env =
  open_image :: "string \<Rightarrow> 'img option"
  upload_ok :: "'img \<Rightarrow> bool"

definition OpenGLRenderer_init :: "int \<Rightarrow> int \<Rightarrow> renderer" where
  "OpenGLRenderer_init w h = \<lparr>width = w, height = h, textures = Map.empty\<rparr>"

definition load_texture ::
  "'img env \<Rightarrow> renderer \<times> gl_world \<Rightarrow> string \<Rightarrow> string \<Rightarrow> (renderer \<times> gl_world) \<times> int" where
  "load_texture e rw texture_name image_path =
     (case rw of (r, w) \<Rightarrow>
        (case textures r texture_name of
           Some h \<Rightarrow> ((r, w), h)
         | None \<Rightarrow>
             let w1 = w\<lparr>opened := opened w @ [image_path]\<rparr>
             in (case open_image e image_path of
                   None \<Rightarrow> ((r, w1), - 1)
                 | Some img \<Rightarrow>
                     let texture_id = int (next_texture w1);
                         w2 = w1\<lparr>next_texture := Suc (next_texture w1)\<rparr>
                     in if upload_ok e img
                        then ((r\<lparr>textures := (textures r)(texture_name \<mapsto> texture_id)\<rparr>, w2),
                              texture_id)
                        else ((r, w2), - 1))))"

definition get_texture :: "renderer \<Rightarrow> string \<Rightarrow> int" where
  "get_texture r texture_name = (case textures r texture_name of Some h \<Rightarrow> h | None \<Rightarrow> - 1)"

text \<open>
  A sequence of \<^verbatim>\<open>load_texture\<close> calls; each call comes with the outside world it meets,
  since files may change between calls.
\<close>

fun load_seq ::
  "renderer \<times> gl_world \<Rightarrow> ('img env \<times> string \<times> string) list \<Rightarrow> renderer \<times> gl_world" where
  "load_seq rw [] = rw"
| "load_seq rw ((e, nm, path) # cs) = load_seq (fst (load_texture e rw nm path)) cs"

section \<open>main.py\<close>

definition PLANETS_DATA :: "(string \<times> real \<times> real \<times> real \<times> real) list" where
  "PLANETS_DATA =
     [(''Mercury'', 0.38, 8.0, 4.0, 3.0),
      (''Venus'', 0.95, 12.0, 1.5, - 1.0),
      (''Earth'', 1.0, 16.0, 1.0, 2.0),
      (''Mars'', 0.53, 21.0, 0.8, 1.9),
      (''Jupiter'', 2.5, 30.0, 0.3, 2.4),
      (''Saturn'', 2.0, 40.0, 0.15, 2.3)]"

definition texture_names :: "string list" where
  "texture_names = [''mercury'', ''venus'', ''earth'', ''mars'', ''jupiter'', ''saturn'']"

record simulator =
  running :: bool
  paused :: bool
  show_orbits :: bool
  renderer :: renderer
  camera :: camera
  planets :: "planet list"
  frame_count :: nat

text \<open>
  The body of the loop of \<^verbatim>\<open>_create_planets\<close> for the \<open>i\<close>-th row of the table: load the
  texture, then construct the planet with the handle that came back.
\<close>

definition create_planet ::
  "'img env \<Rightarrow> ('g \<Rightarrow> real \<Rightarrow> real \<Rightarrow> real \<times> 'g) \<Rightarrow> (renderer \<times> gl_world) \<times> 'g \<Rightarrow> nat
     \<Rightarrow> string \<times> real \<times> real \<times> real \<times> real \<Rightarrow> error + (((renderer \<times> gl_world) \<times> 'g) \<times> planet)" where
  "create_planet e U st i row =
     (case st of (rw, g) \<Rightarrow>
      case row of (nm, r, d, os, rs) \<Rightarrow>
        if i < length texture_names then
          (let texture_name = texture_names ! i;
               texture_path = ''textures/'' @ texture_name @ ''.png'';
               (rw', tid) = load_texture e rw texture_name texture_path;
               (pl, g') = Planet_init U g nm r d os rs tid default_color
           in Inr ((rw', g'), pl))
        else Inl IndexError)"

fun create_planets_loop ::
  "'img env \<Rightarrow> ('g \<Rightarrow> real \<Rightarrow> real \<Rightarrow> real \<times> 'g) \<Rightarrow> (renderer \<times> gl_world) \<times> 'g \<Rightarrow> nat
     \<Rightarrow> (string \<times> real \<times> real \<times> real \<times> real) list \<Rightarrow> planet list
     \<Rightarrow> error + (((renderer \<times> gl_world) \<times> 'g) \<times> planet list)" where
  "create_planets_loop e U st i [] acc = Inr (st, acc)"
| "create_planets_loop e U st i (row # rows) acc =
     (case create_planet e U st i row of
        Inl err \<Rightarrow> Inl err
      | Inr (st', pl) \<Rightarrow> create_planets_loop e U st' (Suc i) rows (acc @ [pl]))"

definition create_planets ::
  "'img env \<Rightarrow> ('g \<Rightarrow> real \<Rightarrow> real \<Rightarrow> real \<times> 'g) \<Rightarrow> (renderer \<times> gl_world) \<times> 'g
     \<Rightarrow> error + (((renderer \<times> gl_world) \<times> 'g) \<times> planet list)" where
  "create_planets e U st = create_planets_loop e U st 0 PLANETS_DATA []"

text \<open>
  \<^verbatim>\<open>_render_starfield\<close>. \<open>seed n\<close> is the generator state that \<^verbatim>\<open>np.random.seed(n)\<close>
  installs. The method reads nothing of the simulator \<open>s\<close>; the argument stands for
  \<^verbatim>\<open>self\<close>. It returns the calls issued and the generator state it leaves behind.
\<close>

fun star_loop ::
  "('g \<Rightarrow> real \<Rightarrow> real \<Rightarrow> real \<times> 'g) \<Rightarrow> nat \<Rightarrow> 'g \<Rightarrow> gl_cmd list \<times> 'g" where
  "star_loop U 0 g = ([], g)"
| "star_loop U (Suc n) g =
     (let (th, g1) = U g 0 (2 * pi);
          (ph, g2) = U g1 0 pi;
          x = 300 * sin ph * cos th;
          y = 300 * sin ph * sin th;
          z = 300 * cos ph;
          (rest, g') = star_loop U n g2
      in (glVertex3f x y z # rest, g'))"

definition render_starfield ::
  "(nat \<Rightarrow> 'g) \<Rightarrow> ('g \<Rightarrow> real \<Rightarrow> real \<Rightarrow> real \<times> 'g) \<Rightarrow> simulator \<Rightarrow> 'g \<Rightarrow> gl_cmd list \<times> 'g" where
  "render_starfield seed U s g =
     (let g0 = seed 42;
          (stars, g') = star_loop U 500 g0
      in ([glPushMatrix, glDisable GL_LIGHTING, glPointSize 1.5, glColor3f 0.8 0.8 1.0,
           glBegin GL_POINTS]
          @ stars
          @ [glEnd, glPointSize 1.0, glEnable GL_LIGHTING, glPopMatrix], g'))"

definition update_simulation :: "simulator \<Rightarrow> simulator" where
  "update_simulation s =
     (if \<not> paused s then s\<lparr>planets := map (\<lambda>p. update p 1) (planets s)\<rparr> else s)"

text \<open>The discrete events of \<^verbatim>\<open>_handle_input\<close>.\<close>

datatype key = K_ESCAPE | K_r | K_p | K_o | K_other

datatype event = QUIT | KEYDOWN key | MOUSEBUTTONDOWN nat | OTHER

fun handle_event :: "simulator \<Rightarrow> event \<Rightarrow> error + simulator" where
  "handle_event s QUIT = Inr (s\<lparr>running := False\<rparr>)"
| "handle_event s (KEYDOWN K_ESCAPE) = Inr (s\<lparr>running := False\<rparr>)"
| "handle_event s (KEYDOWN K_r) =
     (case reset_view (camera s) of Inl e \<Rightarrow> Inl e | Inr c \<Rightarrow> Inr (s\<lparr>camera := c\<rparr>))"
| "handle_event s (KEYDOWN K_p) = Inr (s\<lparr>paused := \<not> paused s\<rparr>)"
| "handle_event s (KEYDOWN K_o) = Inr (s\<lparr>show_orbits := \<not> show_orbits s\<rparr>)"
| "handle_event s (KEYDOWN K_other) = Inr s"
| "handle_event s (MOUSEBUTTONDOWN b) =
     (if b = 4 then Inr (s\<lparr>camera := zoom_in (camera s)\<rparr>)
      else if b = 5 then Inr (s\<lparr>camera := zoom_out (camera s)\<rparr>)
      else Inr s)"
| "handle_event s OTHER = Inr s"

section \<open>Concrete inputs\<close>

text \<open>
  A small stand-in for the numpy generator, used where a statement is evaluated at a
  concrete input: the state is a counter, and a draw lies in \<open>[lo, hi)\<close> for \<open>lo < hi\<close>.
\<close>

definition toy_uniform :: "nat \<Rightarrow> real \<Rightarrow> real \<Rightarrow> real \<times> nat" where
  "toy_uniform g lo hi = (lo + (hi - lo) * real (g mod 100) / 100, Suc g)"

definition toy_seed :: "nat \<Rightarrow> nat" where
  "toy_seed n = n"

text \<open>Venus, with the parameters of its row in \<open>PLANETS_DATA\<close>, half a degree into its spin.\<close>

definition venus :: planet where
  "venus = \<lparr>name = ''Venus'', radius = 0.95, distance = 12.0, orbit_speed = 1.5,
            rotation_speed = - 1.0, texture_id = 2, color = default_color,
            orbit_angle = 0, rotation_angle = 0.5\<rparr>"

definition earth :: planet where
  "earth = \<lparr>name = ''Earth'', radius = 1.0, distance = 16.0, orbit_speed = 1.0,
            rotation_speed = 2.0, texture_id = - 1, color = default_color,
            orbit_angle = 359.5, rotation_angle = 10\<rparr>"

definition example_simulator :: simulator where
  "example_simulator =
     \<lparr>running = True, paused = False, show_orbits = True,
      renderer = OpenGLRenderer_init 1400 900, camera = Camera_init,
      planets = [venus, earth], frame_count = 0\<rparr>"




text \<open>An outside world with no readable image file, and one where every file loads.\<close>

definition no_files :: "unit env" where
  "no_files = \<lparr>open_image = (\<lambda>path. None), upload_ok = (\<lambda>img. True)\<rparr>"

definition all_files :: "unit env" where
  "all_files = \<lparr>open_image = (\<lambda>path. Some ()), upload_ok = (\<lambda>img. True)\<rparr>"

definition world0 :: gl_world where
  "world0 = \<lparr>next_texture = 1, opened = []\<rparr>"

section \<open>Orbiting bodies: the angles\<close>

lemma update_params [simp]:
  "orbit_speed (update p dt) = orbit_speed p"
  "planet.rotation_speed (update p dt) = planet.rotation_speed p"
  "planet.distance (update p dt) = planet.distance p"
  by (simp_all add: update_def Let_def)

text \<open>
  With both speeds between 0 and 360 degrees per frame, one subtraction of 360 is enough
  and a frame keeps both angles in \<open>[0, 360)\<close>.
\<close>

lemma update_keeps_range:
  assumes "0 \<le> orbit_speed p" "orbit_speed p \<le> 360"
    and "0 \<le> planet.rotation_speed p" "planet.rotation_speed p \<le> 360"
    and "0 \<le> orbit_angle p" "orbit_angle p < 360"
    and "0 \<le> rotation_angle p" "rotation_angle p < 360"
  shows "0 \<le> orbit_angle (update p 1) \<and> orbit_angle (update p 1) < 360
       \<and> 0 \<le> rotation_angle (update p 1) \<and> rotation_angle (update p 1) < 360"
  using assms by (simp add: update_def Let_def)

text \<open>
  A negative spin speed is never wrapped: the angle only falls, by the speed each frame.
\<close>

lemma ticks_negative_spin:
  "planet.rotation_speed p < 0 \<Longrightarrow> rotation_angle p < 360 \<Longrightarrow>
     rotation_angle (ticks n p) = rotation_angle p + real n * planet.rotation_speed p"
proof (induction n arbitrary: p)
  case 0
  then show ?case by simp
next
  case (Suc n)
  have step: "rotation_angle (update p 1) = rotation_angle p + planet.rotation_speed p"
    using Suc.prems by (simp add: update_def Let_def)
  have "rotation_angle (ticks n (update p 1)) =
          rotation_angle (update p 1) + real n * planet.rotation_speed (update p 1)"
    using Suc.prems step by (intro Suc.IH) simp_all
  then show ?case using step by (simp add: algebra_simps)
qed

text \<open>
  Whatever the start angle in \<open>[0, 360)\<close>, a body spinning at -1 degree per frame is
  below 0 after 360 frames.
\<close>

lemma negative_spin_leaves_range:
  assumes "planet.rotation_speed p = - 1" and "rotation_angle p < 360"
  shows "rotation_angle (ticks 360 p) < 0"
  using ticks_negative_spin [of p 360] assms by simp

text \<open>
  Claim C1 says that both angles of every body stay in \<open>[0, 360)\<close> under \<^verbatim>\<open>update(1.0)\<close>,
  also for negative speeds. The program wraps only at the upper end. Venus of the
  program's own table spins at -1 degree per frame: from a spin angle of 0.5, inside the
  range, one frame gives -0.5.
\<close>

theorem venus_spin_leaves_range:
  "(name venus, radius venus, planet.distance venus, orbit_speed venus,
      planet.rotation_speed venus) = PLANETS_DATA ! 1
   \<and> 0 \<le> rotation_angle venus \<and> rotation_angle venus < 360
   \<and> 0 \<le> orbit_angle venus \<and> orbit_angle venus < 360
   \<and> rotation_angle (update venus 1) = - 0.5
   \<and> \<not> (0 \<le> rotation_angle (ticks 1 venus))"
  by (simp add: venus_def update_def Let_def PLANETS_DATA_def)

section \<open>Orbiting bodies: construction\<close>

text \<open>
  Claim C2 says that construction rejects a radius or an orbit radius that is not
  positive. At body radius -1 and orbit radius 0 the constructor returns a planet holding
  exactly these values.
\<close>

theorem Planet_init_accepts_nonpositive_radius:
  "fst (Planet_init toy_uniform 7 ''X'' (- 1) 0 1 1 (- 1) default_color) =
     \<lparr>name = ''X'', radius = - 1, distance = 0, orbit_speed = 1, rotation_speed = 1,
      texture_id = - 1, color = default_color, orbit_angle = 25.2, rotation_angle = 28.8\<rparr>"
  by (simp add: Planet_init_def toy_uniform_def)

text \<open>
  Claim C2 as amended: construction checks nothing. For all arguments it returns a planet
  that holds them unchanged; the orbit angle is the first draw of \<^verbatim>\<open>uniform(0, 360)\<close> and
  the spin angle the next draw, so both lie in \<open>[0, 360)\<close> when the draws do.
\<close>

theorem Planet_init_stores_arguments:
  "fst (Planet_init U g nm r d os rs tid col) =
     \<lparr>name = nm, radius = r, distance = d, orbit_speed = os, rotation_speed = rs,
      texture_id = tid, color = col,
      orbit_angle = fst (U g 0 360),
      rotation_angle = fst (U (snd (U g 0 360)) 0 360)\<rparr>
   \<and> snd (Planet_init U g nm r d os rs tid col) = snd (U (snd (U g 0 360)) 0 360)
   \<and> (0 \<le> fst (U g 0 360) \<and> fst (U g 0 360) < 360
      \<and> 0 \<le> fst (U (snd (U g 0 360)) 0 360) \<and> fst (U (snd (U g 0 360)) 0 360) < 360
      \<longrightarrow> 0 \<le> orbit_angle (fst (Planet_init U g nm r d os rs tid col))
        \<and> orbit_angle (fst (Planet_init U g nm r d os rs tid col)) < 360
        \<and> 0 \<le> rotation_angle (fst (Planet_init U g nm r d os rs tid col))
        \<and> rotation_angle (fst (Planet_init U g nm r d os rs tid col)) < 360)"
  by (simp add: Planet_init_def split: prod.splits)

theorem Planet_init_stores_arguments_witness:
  "(0 \<le> fst (toy_uniform 7 0 360) \<and> fst (toy_uniform 7 0 360) < 360
      \<and> 0 \<le> fst (toy_uniform (snd (toy_uniform 7 0 360)) 0 360)
      \<and> fst (toy_uniform (snd (toy_uniform 7 0 360)) 0 360) < 360)
   \<and> radius (fst (Planet_init toy_uniform 7 ''Pluto'' (- 3) (- 50) 1 1 0 default_color)) = - 3
   \<and> planet.distance (fst (Planet_init toy_uniform 7 ''Pluto'' (- 3) (- 50) 1 1 0 default_color)) = - 50
   \<and> 0 \<le> orbit_angle (fst (Planet_init toy_uniform 7 ''Pluto'' (- 3) (- 50) 1 1 0 default_color))
   \<and> orbit_angle (fst (Planet_init toy_uniform 7 ''Pluto'' (- 3) (- 50) 1 1 0 default_color)) < 360
   \<and> 0 \<le> rotation_angle (fst (Planet_init toy_uniform 7 ''Pluto'' (- 3) (- 50) 1 1 0 default_color))
   \<and> rotation_angle (fst (Planet_init toy_uniform 7 ''Pluto'' (- 3) (- 50) 1 1 0 default_color)) < 360"
  using Planet_init_stores_arguments [of toy_uniform 7 "''Pluto''" "- 3" "- 50" 1 1 0 default_color]
  by (simp add: toy_uniform_def)

section \<open>The simulation step and pause\<close>

text \<open>
  Claim C8: while paused, the simulation step changes nothing; while running, it applies
  \<^verbatim>\<open>update(1.0)\<close> to every planet and nothing else. So after the pause key turned pause
  on, the step is the identity.
\<close>

theorem paused_freezes_planets:
  "(paused s \<longrightarrow> update_simulation s = s)
   \<and> (\<not> paused s \<longrightarrow> update_simulation s = s\<lparr>planets := map (\<lambda>p. update p 1) (planets s)\<rparr>)
   \<and> (\<not> paused s \<longrightarrow>
        (\<exists>s'. handle_event s (KEYDOWN K_p) = Inr s' \<and> paused s' \<and> planets s' = planets s
              \<and> update_simulation s' = s'))"
  by (simp add: update_simulation_def)

theorem paused_freezes_planets_witness:
  "\<not> paused example_simulator
   \<and> planets (update_simulation example_simulator) = [update venus 1, update earth 1]
   \<and> (\<exists>s'. handle_event example_simulator (KEYDOWN K_p) = Inr s' \<and> paused s'
            \<and> planets s' = [venus, earth] \<and> update_simulation s' = s')
   \<and> paused (example_simulator\<lparr>paused := True\<rparr>)
   \<and> planets (update_simulation (example_simulator\<lparr>paused := True\<rparr>)) = [venus, earth]"
  using paused_freezes_planets [of example_simulator]
    paused_freezes_planets [of "example_simulator\<lparr>paused := True\<rparr>"]
  by (simp add: example_simulator_def)

section \<open>The orbit path\<close>

lemma vertices_append: "vertices (xs @ ys) = vertices xs @ vertices ys"
  by (induction xs rule: vertices.induct) simp_all









section \<open>The starfield\<close>

lemma length_star_loop: "length (vertices (fst (star_loop U n g))) = n"
  by (induction n arbitrary: g) (simp_all add: Let_def case_prod_beta)

text \<open>
  Claim C9: the starfield is re-seeded with 42 at every call, so the calls it issues and
  the generator state it leaves do not depend on the generator state it finds, nor on
  the simulator (camera, planets, pause): any two invocations agree. The stars are the
  500 vertices drawn from the generator seeded with 42.
\<close>

theorem starfield_deterministic:
  "render_starfield seed U s g = render_starfield seed U s' g'
   \<and> vertices (fst (render_starfield seed U s g)) = vertices (fst (star_loop U 500 (seed 42)))
   \<and> length (vertices (fst (render_starfield seed U s g))) = 500"
  by (simp add: render_starfield_def vertices_append length_star_loop Let_def case_prod_beta)

theorem starfield_deterministic_witness:
  "render_starfield toy_seed toy_uniform example_simulator 3
     = render_starfield toy_seed toy_uniform
         (example_simulator\<lparr>camera := zoom_in Camera_init, planets := [update venus 1]\<rparr>) 99
   \<and> vertices (fst (render_starfield toy_seed toy_uniform example_simulator 3))
       = vertices (fst (star_loop toy_uniform 500 (toy_seed 42)))
   \<and> length (vertices (fst (render_starfield toy_seed toy_uniform example_simulator 3))) = 500"
  by (rule starfield_deterministic)

section \<open>Textures: failure and fallback\<close>

lemma draw_flat:
  "texture_id p < 0 \<Longrightarrow>
     draw p =
       [glPushMatrix,
        glTranslatef (fst (get_position p)) (fst (snd (get_position p))) (snd (snd (get_position p))),
        glRotatef (rotation_angle p) 0 1 0,
        glDisable GL_TEXTURE_2D,
        glColor3f (fst (color p)) (fst (snd (color p))) (snd (snd (color p))),
        gluSphere (radius p) 32 32, glDisable GL_TEXTURE_2D, glPopMatrix]"
  by (simp add: draw_def split: prod.splits)

lemma draw_textured:
  "0 \<le> texture_id p \<Longrightarrow>
     draw p =
       [glPushMatrix,
        glTranslatef (fst (get_position p)) (fst (snd (get_position p))) (snd (snd (get_position p))),
        glRotatef (rotation_angle p) 0 1 0,
        glEnable GL_TEXTURE_2D,
        glBindTexture GL_TEXTURE_2D (texture_id p),
        gluSphere (radius p) 32 32, glDisable GL_TEXTURE_2D, glPopMatrix]"
  by (simp add: draw_def split: prod.splits)

lemma load_texture_fails:
  "textures r nm = None \<Longrightarrow>
   open_image e path = None \<or> (\<exists>img. open_image e path = Some img \<and> \<not> upload_ok e img) \<Longrightarrow>
     snd (load_texture e (r, w) nm path) = - 1 \<and> fst (fst (load_texture e (r, w) nm path)) = r"
  by (auto simp: load_texture_def Let_def)

lemma create_planet_texture:
  "i < length texture_names \<Longrightarrow>
     \<exists>st' pl. create_planet e U (rw, g) i row = Inr (st', pl)
        \<and> texture_id pl =
            snd (load_texture e rw (texture_names ! i) (''textures/'' @ texture_names ! i @ ''.png''))
        \<and> color pl = default_color"
  by (cases row) (simp add: create_planet_def Planet_init_def Let_def split: prod.splits)

text \<open>
  Claim C7: a load that is not served from the table and whose file cannot be opened or
  uploaded returns -1 and leaves the table as it was; nothing is raised. The planet
  that \<^verbatim>\<open>_create_planets\<close> builds from that handle has texture id -1 and the default colour,
  and is drawn with texturing disabled in that flat colour. In general a planet with a
  negative handle is drawn flat in its own colour, one with a handle that is not negative
  is drawn with texturing enabled and that texture bound; either way the sphere is drawn.
\<close>

theorem texture_failure_falls_back:
  "(textures r nm = None
      \<and> (open_image e path = None \<or> (\<exists>img. open_image e path = Some img \<and> \<not> upload_ok e img))
      \<longrightarrow> snd (load_texture e (r, w) nm path) = - 1
        \<and> fst (fst (load_texture e (r, w) nm path)) = r)
   \<and> (i < length texture_names
      \<and> snd (load_texture e (r, w) (texture_names ! i) (''textures/'' @ texture_names ! i @ ''.png''))
          = - 1
      \<longrightarrow> (\<exists>st' pl. create_planet e U ((r, w), g) i row = Inr (st', pl)
             \<and> texture_id pl = - 1 \<and> color pl = default_color
             \<and> glDisable GL_TEXTURE_2D # glColor3f 0.8 0.8 0.8
                  # gluSphere (radius pl) 32 32 # [glDisable GL_TEXTURE_2D, glPopMatrix]
                = drop 3 (draw pl)))
   \<and> (texture_id p < 0 \<longrightarrow>
        draw p =
          [glPushMatrix,
           glTranslatef (fst (get_position p)) (fst (snd (get_position p)))
             (snd (snd (get_position p))),
           glRotatef (rotation_angle p) 0 1 0,
           glDisable GL_TEXTURE_2D,
           glColor3f (fst (color p)) (fst (snd (color p))) (snd (snd (color p))),
           gluSphere (radius p) 32 32, glDisable GL_TEXTURE_2D, glPopMatrix])
   \<and> (0 \<le> texture_id p \<longrightarrow>
        draw p =
          [glPushMatrix,
           glTranslatef (fst (get_position p)) (fst (snd (get_position p)))
             (snd (snd (get_position p))),
           glRotatef (rotation_angle p) 0 1 0,
           glEnable GL_TEXTURE_2D,
           glBindTexture GL_TEXTURE_2D (texture_id p),
           gluSphere (radius p) 32 32, glDisable GL_TEXTURE_2D, glPopMatrix])"
proof (intro conjI impI)
  assume a: "i < length texture_names
      \<and> snd (load_texture e (r, w) (texture_names ! i) (''textures/'' @ texture_names ! i @ ''.png''))
          = - 1"
  from create_planet_texture [of i e U "(r, w)" g row] a
  obtain st' pl where c: "create_planet e U ((r, w), g) i row = Inr (st', pl)"
    and t: "texture_id pl = - 1" and col: "color pl = default_color"
    by auto
  have "glDisable GL_TEXTURE_2D # glColor3f 0.8 0.8 0.8
          # gluSphere (radius pl) 32 32 # [glDisable GL_TEXTURE_2D, glPopMatrix]
        = drop 3 (draw pl)"
    using t col by (simp add: draw_flat default_color_def)
  with c t col
  show "\<exists>st' pl. create_planet e U ((r, w), g) i row = Inr (st', pl)
             \<and> texture_id pl = - 1 \<and> color pl = default_color
             \<and> glDisable GL_TEXTURE_2D # glColor3f 0.8 0.8 0.8
                  # gluSphere (radius pl) 32 32 # [glDisable GL_TEXTURE_2D, glPopMatrix]
                = drop 3 (draw pl)"
    by blast
qed (simp_all add: load_texture_fails draw_flat draw_textured)



theorem texture_failure_falls_back_witness:
  "textures (OpenGLRenderer_init 1400 900) ''earth'' = None
   \<and> open_image no_files ''textures/earth.png'' = None
   \<and> snd (load_texture no_files (OpenGLRenderer_init 1400 900, world0) ''earth''
            ''textures/earth.png'') = - 1
   \<and> 2 < length texture_names
   \<and> (\<exists>st' pl. create_planet no_files toy_uniform ((OpenGLRenderer_init 1400 900, world0), 0) 2
                  (''Earth'', 1.0, 16.0, 1.0, 2.0) = Inr (st', pl)
         \<and> texture_id pl = - 1)
   \<and> texture_id earth < 0
   \<and> glColor3f 0.8 0.8 0.8 \<in> set (draw earth)
   \<and> glBindTexture GL_TEXTURE_2D (- 1) \<notin> set (draw earth)
   \<and> 0 \<le> texture_id venus
   \<and> glBindTexture GL_TEXTURE_2D 2 \<in> set (draw venus)"
proof -
  note t = texture_failure_falls_back [where r = "OpenGLRenderer_init 1400 900"
      and nm = "''earth''" and e = no_files and path = "''textures/earth.png''" and w = world0
      and i = 2 and U = toy_uniform and g = 0 and row = "(''Earth'', 1.0, 16.0, 1.0, 2.0)"]
  have h1: "textures (OpenGLRenderer_init 1400 900) ''earth'' = None"
    "open_image no_files ''textures/earth.png'' = None"
    by (simp_all add: OpenGLRenderer_init_def no_files_def)
  have h2: "2 < length texture_names" "texture_names ! 2 = ''earth''"
    by (simp_all add: texture_names_def)
  have h3: "texture_id earth < 0" "0 \<le> texture_id venus" "texture_id venus = 2"
    "color earth = (0.8, 0.8, 0.8)"
    by (simp_all add: earth_def venus_def default_color_def)
  from t [of earth] h1 have l: "snd (load_texture no_files (OpenGLRenderer_init 1400 900, world0)
      ''earth'' ''textures/earth.png'') = - 1"
    by simp
  from t [of earth] h2 l
  have c: "\<exists>st' pl. create_planet no_files toy_uniform ((OpenGLRenderer_init 1400 900, world0), 0) 2
                  (''Earth'', 1.0, 16.0, 1.0, 2.0) = Inr (st', pl) \<and> texture_id pl = - 1"
    by auto
  from t [of earth] h3 have e1: "glColor3f 0.8 0.8 0.8 \<in> set (draw earth)"
    "glBindTexture GL_TEXTURE_2D (- 1) \<notin> set (draw earth)"
    by simp_all
  from t [of venus] h3 have v: "glBindTexture GL_TEXTURE_2D 2 \<in> set (draw venus)"
    by simp
  show ?thesis using h1 h2 h3 l c e1 v by simp
qed

section \<open>Textures: the table as a cache\<close>

lemma load_texture_cached:
  "textures r nm = Some h \<Longrightarrow> load_texture e (r, w) nm path = ((r, w), h)"
  by (simp add: load_texture_def)

lemma load_texture_keeps:
  "textures (fst rw) nm = Some h \<Longrightarrow>
     textures (fst (fst (load_texture e rw nm' path))) nm = Some h"
  by (cases rw) (auto simp: load_texture_def Let_def split: option.splits)

lemma load_seq_keeps:
  "textures (fst rw) nm = Some h \<Longrightarrow> textures (fst (load_seq rw cs)) nm = Some h"
proof (induction cs arbitrary: rw)
  case Nil
  then show ?case by simp
next
  case (Cons c cs)
  obtain e nm' path where c: "c = (e, nm', path)"
    by (cases c)
  show ?case
    unfolding c load_seq.simps
    by (rule Cons.IH) (rule load_texture_keeps [OF Cons.prems])
qed

lemma load_texture_handles:
  "(\<And>n h. textures (fst rw) n = Some h \<Longrightarrow> 0 \<le> h) \<Longrightarrow>
     textures (fst (fst (load_texture e rw nm path))) n = Some h \<Longrightarrow> 0 \<le> h"
  by (cases rw) (auto simp: load_texture_def Let_def split: option.splits if_splits)

lemma load_seq_handles:
  "(\<And>n h. textures (fst rw) n = Some h \<Longrightarrow> 0 \<le> h) \<Longrightarrow>
     textures (fst (load_seq rw cs)) n = Some h \<Longrightarrow> 0 \<le> h"
proof (induction cs arbitrary: rw)
  case Nil
  then show ?case by simp
next
  case (Cons c cs)
  obtain e nm' path where c: "c = (e, nm', path)"
    by (cases c)
  show ?case
  proof (rule Cons.IH [of "fst (load_texture e rw nm' path)"])
    fix n' h'
    assume "textures (fst (fst (load_texture e rw nm' path))) n' = Some h'"
    then show "0 \<le> h'"
      using Cons.prems(1) load_texture_handles by blast
  next
    show "textures (fst (load_seq (fst (load_texture e rw nm' path)) cs)) n = Some h"
      using Cons.prems(2) by (simp add: c)
  qed
qed

lemma load_texture_result:
  "load_texture e (r, w) nm path = ((r', w'), h) \<Longrightarrow>
     (h = - 1 \<and> textures r' nm = textures r nm \<and> r' = r) \<or> textures r' nm = Some h"
  by (auto simp: load_texture_def Let_def split: option.splits if_splits)


lemma load_texture_attempt:
  "textures (fst rw) nm = None \<Longrightarrow>
     opened (snd (fst (load_texture e rw nm path))) = opened (snd rw) @ [path]"
  by (cases rw) (auto simp: load_texture_def Let_def split: option.splits)

lemma init_handles: "textures (OpenGLRenderer_init wd ht) n = Some h \<Longrightarrow> 0 \<le> h"
  by (simp add: OpenGLRenderer_init_def)

text \<open>
  Claim C10: a name in the table is answered from the table, with the stored handle, no
  file opened and no state changed, whatever the path and the files are. An entry stays
  through any later loads, so every later call for a name that was loaded returns the
  handle of the first call. A load returning -1 (from a state with the name absent, or
  from any state reached from the initial renderer) stores nothing under the name, and the
  next call for it opens its file again.
\<close>

theorem load_texture_caches:
  "(textures r nm = Some h \<longrightarrow> load_texture e (r, w) nm path = ((r, w), h))
   \<and> (load_texture e (r, w) nm path = (rw1, h1) \<and> textures (fst rw1) nm = Some h1 \<longrightarrow>
        load_texture e' (load_seq rw1 cs) nm path' = (load_seq rw1 cs, h1))
   \<and> ((textures r nm = None \<or> (r, w) = load_seq (OpenGLRenderer_init wd ht, w0) cs0)
        \<and> load_texture e (r, w) nm path = (rw1, - 1) \<longrightarrow>
        textures (fst rw1) nm = None
        \<and> opened (snd (fst (load_texture e' rw1 nm path'))) = opened (snd rw1) @ [path'])"
proof (intro conjI; rule impI)
  assume "textures r nm = Some h"
  then show "load_texture e (r, w) nm path = ((r, w), h)"
    by (rule load_texture_cached)
next
  assume "load_texture e (r, w) nm path = (rw1, h1) \<and> textures (fst rw1) nm = Some h1"
  then have "textures (fst (load_seq rw1 cs)) nm = Some h1"
    by (simp add: load_seq_keeps)
  then show "load_texture e' (load_seq rw1 cs) nm path' = (load_seq rw1 cs, h1)"
    using load_texture_cached [of "fst (load_seq rw1 cs)" nm h1 e' "snd (load_seq rw1 cs)" path']
    by simp
next
  assume a: "(textures r nm = None \<or> (r, w) = load_seq (OpenGLRenderer_init wd ht, w0) cs0)
        \<and> load_texture e (r, w) nm path = (rw1, - 1)"
  have ok: "0 \<le> k" if "textures r n = Some k"
    and "(r, w) = load_seq (OpenGLRenderer_init wd ht, w0) cs0" for n k
  proof (rule load_seq_handles [of "(OpenGLRenderer_init wd ht, w0)" cs0 n k])
    show "\<And>n h. textures (fst (OpenGLRenderer_init wd ht, w0)) n = Some h \<Longrightarrow> 0 \<le> h"
      by (simp add: init_handles)
    show "textures (fst (load_seq (OpenGLRenderer_init wd ht, w0) cs0)) n = Some k"
      using that by (metis fst_conv)
  qed
  have none: "textures r nm = None"
  proof (cases "textures r nm")
    case None
    then show ?thesis .
  next
    case (Some k)
    with a have "k = - 1"
      by (simp add: load_texture_cached)
    moreover from a Some have "0 \<le> k"
      using ok by auto
    ultimately show ?thesis by simp
  qed
  obtain r' w' where rw1: "rw1 = (r', w')"
    by (cases rw1)
  from a rw1 load_texture_result [of e r w nm path r' w' "- 1"]
  have "textures r' nm = textures r nm \<or> textures r' nm = Some (- 1)"
    by auto
  moreover have "textures r' nm \<noteq> Some (- 1)"
  proof
    assume s: "textures r' nm = Some (- 1)"
    have "load_texture e (r, w) nm path = ((r', w'), - 1)"
      using a rw1 by simp
    with none s show False
      by (auto simp: load_texture_def Let_def split: option.splits if_splits)
  qed
  ultimately have n1: "textures (fst rw1) nm = None"
    using none rw1 by simp
  then show "textures (fst rw1) nm = None
        \<and> opened (snd (fst (load_texture e' rw1 nm path'))) = opened (snd rw1) @ [path']"
    by (simp add: load_texture_attempt)
qed

theorem load_texture_caches_witness:
  "load_texture all_files (OpenGLRenderer_init 1400 900, world0) ''earth'' ''textures/earth.png''
     = ((\<lparr>width = 1400, height = 900, textures = [''earth'' \<mapsto> 1]\<rparr>,
         \<lparr>next_texture = 2, opened = [''textures/earth.png'']\<rparr>), 1)
   \<and> load_texture no_files
        (load_seq (\<lparr>width = 1400, height = 900, textures = [''earth'' \<mapsto> 1]\<rparr>,
                   \<lparr>next_texture = 2, opened = [''textures/earth.png'']\<rparr>)
           [(no_files, ''mars'', ''textures/mars.png'')])
        ''earth'' ''elsewhere.png''
       = (load_seq (\<lparr>width = 1400, height = 900, textures = [''earth'' \<mapsto> 1]\<rparr>,
                    \<lparr>next_texture = 2, opened = [''textures/earth.png'']\<rparr>)
            [(no_files, ''mars'', ''textures/mars.png'')], 1)
   \<and> textures (OpenGLRenderer_init 1400 900) ''mars'' = None
   \<and> load_texture no_files (OpenGLRenderer_init 1400 900, world0) ''mars'' ''textures/mars.png''
       = ((OpenGLRenderer_init 1400 900, \<lparr>next_texture = 1, opened = [''textures/mars.png'']\<rparr>), - 1)
   \<and> opened (snd (fst (load_texture all_files
        (OpenGLRenderer_init 1400 900, \<lparr>next_texture = 1, opened = [''textures/mars.png'']\<rparr>)
        ''mars'' ''textures/mars.png'')))
       = [''textures/mars.png'', ''textures/mars.png'']"
proof -
  let ?r0 = "OpenGLRenderer_init 1400 900"
  let ?rw1 = "(\<lparr>width = 1400, height = 900, textures = [''earth'' \<mapsto> 1]\<rparr>,
               \<lparr>next_texture = 2, opened = [''textures/earth.png'']\<rparr>)"
  let ?rw2 = "(?r0, \<lparr>next_texture = 1, opened = [''textures/mars.png'']\<rparr>)"
  have a: "load_texture all_files (?r0, world0) ''earth'' ''textures/earth.png'' = (?rw1, 1)"
    by (simp add: load_texture_def OpenGLRenderer_init_def all_files_def world0_def)
  have b: "textures (fst ?rw1) ''earth'' = Some 1"
    by simp
  have c: "textures ?r0 ''mars'' = None"
    by (simp add: OpenGLRenderer_init_def)
  have d: "load_texture no_files (?r0, world0) ''mars'' ''textures/mars.png'' = (?rw2, - 1)"
    by (simp add: load_texture_def OpenGLRenderer_init_def no_files_def world0_def)
  from load_texture_caches [where r = ?r0 and w = world0 and e = all_files and nm = "''earth''"
      and path = "''textures/earth.png''" and ?rw1.0 = ?rw1 and ?h1.0 = 1 and e' = no_files
      and cs = "[(no_files, ''mars'', ''textures/mars.png'')]" and path' = "''elsewhere.png''"] a b
  have e: "load_texture no_files (load_seq ?rw1 [(no_files, ''mars'', ''textures/mars.png'')])
        ''earth'' ''elsewhere.png''
       = (load_seq ?rw1 [(no_files, ''mars'', ''textures/mars.png'')], 1)"
    by blast
  from load_texture_caches [where r = ?r0 and w = world0 and e = no_files and nm = "''mars''"
      and path = "''textures/mars.png''" and ?rw1.0 = ?rw2 and e' = all_files
      and path' = "''textures/mars.png''"] c d
  have f: "opened (snd (fst (load_texture all_files ?rw2 ''mars'' ''textures/mars.png'')))
       = [''textures/mars.png'', ''textures/mars.png'']"
    by simp
  show ?thesis using a e c d f by blast
qed

section \<open>The camera\<close>

subsection \<open>The viewing direction has length one\<close>

lemma sum_squares_spherical:
  fixes p t :: real
  shows "(cos p * sin t)\<^sup>2 + (sin p)\<^sup>2 + (cos p * cos t)\<^sup>2 = 1"
proof -
  have "(cos p * sin t)\<^sup>2 + (cos p * cos t)\<^sup>2
        = (cos p)\<^sup>2 * (sin t)\<^sup>2 + (cos p)\<^sup>2 * (cos t)\<^sup>2"
    by (simp add: power_mult_distrib)
  also have "\<dots> = (cos p)\<^sup>2 * ((sin t)\<^sup>2 + (cos t)\<^sup>2)"
    by (simp only: distrib_left)
  also have "\<dots> = (cos p)\<^sup>2"
    by simp
  finally have "(cos p * sin t)\<^sup>2 + (sin p)\<^sup>2 + (cos p * cos t)\<^sup>2 = (cos p)\<^sup>2 + (sin p)\<^sup>2"
    by linarith
  then show ?thesis
    by simp
qed

lemma norm3_spherical: "norm3 (spherical_direction th ph) = 1"
proof -
  let ?p = "ph * pi / 180" and ?t = "th * pi / 180"
  have "norm3 (spherical_direction th ph)
        = sqrt ((cos ?p * sin ?t)\<^sup>2 + (sin ?p)\<^sup>2 + (cos ?p * cos ?t)\<^sup>2)"
    by (simp only: spherical_direction_def norm3.simps power2_eq_square)
  then show ?thesis
    by (simp only: sum_squares_spherical real_sqrt_one)
qed

lemma vsub_vadd_self: "vsub t (vadd t v) = smul v (- 1)"
  by (cases t; cases v) simp

lemma norm3_smul: "norm3 (smul v k) = \<bar>k\<bar> * norm3 v"
proof -
  obtain a b c where v: "v = (a, b, c)" by (cases v)
  have "a * k * (a * k) + b * k * (b * k) + c * k * (c * k) = k\<^sup>2 * (a * a + b * b + c * c)"
    by (simp add: power2_eq_square algebra_simps)
  then show ?thesis
    by (simp add: v real_sqrt_mult)
qed

lemma norm3_direction:
  assumes "cam_inv c"
  shows "norm3 (vsub (target c) (position c)) = \<bar>camera.distance c\<bar>"
proof -
  have "vsub (target c) (position c)
        = smul (smul (spherical_direction (theta c) (phi c)) (camera.distance c)) (- 1)"
    using assms by (simp add: cam_inv_def vsub_vadd_self)
  then show ?thesis
    by (simp add: norm3_smul norm3_spherical)
qed


subsection \<open>Every operation keeps the camera well formed\<close>

lemma update_position_fields [simp]:
  "target (update_position_from_spherical c) = target c"
  "up (update_position_from_spherical c) = up c"
  "camera.distance (update_position_from_spherical c) = camera.distance c"
  "theta (update_position_from_spherical c) = theta c"
  "phi (update_position_from_spherical c) = phi c"
  "zoom_speed (update_position_from_spherical c) = zoom_speed c"
  "move_speed (update_position_from_spherical c) = move_speed c"
  "camera.rotation_speed (update_position_from_spherical c) = camera.rotation_speed c"
  by (simp_all add: update_position_from_spherical_def Let_def)

lemma update_position_inv: "cam_inv (update_position_from_spherical c)"
  by (simp add: cam_inv_def update_position_from_spherical_def spherical_direction_def Let_def
      mult_ac)

lemma cos_pitch_pos:
  assumes "- 89 < ph" "ph < 89"
  shows "0 < cos (ph * pi / 180)"
proof (rule cos_gt_zero_pi)
  have a: "ph * pi < 89 * pi"
    by (rule mult_strict_right_mono) (use assms pi_gt_zero in simp_all)
  have b: "- 89 * pi < ph * pi"
    by (rule mult_strict_right_mono) (use assms pi_gt_zero in simp_all)
  have c: "89 * pi < 90 * pi"
    using pi_gt_zero by simp
  show "ph * pi / 180 < pi / 2"
    using a c by linarith
  show "- (pi / 2) < ph * pi / 180"
    using b c by linarith
qed

lemma direction_nonzero:
  assumes "cam_ok c"
  shows "norm3 (vsub (target c) (position c)) \<noteq> 0"
  using assms norm3_direction [of c] by (simp add: cam_ok_def)

lemma cross_up: "cross (a, b, c) (0, 1, 0) = (- c, 0, a)"
  by simp

lemma right_nonzero:
  assumes "cam_ok c"
  shows "norm3 (cross (vsub (target c) (position c)) (up c)) \<noteq> 0"
proof -
  let ?p = "phi c * pi / 180" and ?t = "theta c * pi / 180" and ?d = "camera.distance c"
  have cp: "0 < cos ?p"
    using assms by (simp add: cam_ok_def cos_pitch_pos)
  have d: "0 < ?d"
    using assms by (simp add: cam_ok_def)
  have up: "up c = (0, 1, 0)"
    using assms by (simp add: cam_ok_def)
  have diff: "vsub (target c) (position c)
        = (- (cos ?p * sin ?t * ?d), - (sin ?p * ?d), - (cos ?p * cos ?t * ?d))"
    using assms by (simp add: cam_ok_def cam_inv_def vsub_vadd_self spherical_direction_def)
  have "cross (vsub (target c) (position c)) (up c) = (cos ?p * cos ?t * ?d, 0, - (cos ?p * sin ?t * ?d))"
    unfolding diff up by simp
  then have "norm3 (cross (vsub (target c) (position c)) (up c))
        = sqrt ((cos ?p * cos ?t * ?d)\<^sup>2 + (cos ?p * sin ?t * ?d)\<^sup>2)"
    by (simp add: power2_eq_square)
  also have "(cos ?p * cos ?t * ?d)\<^sup>2 + (cos ?p * sin ?t * ?d)\<^sup>2
        = (cos ?p * ?d)\<^sup>2 * (cos ?t)\<^sup>2 + (cos ?p * ?d)\<^sup>2 * (sin ?t)\<^sup>2"
    by (simp add: power_mult_distrib mult_ac)
  also have "\<dots> = (cos ?p * ?d)\<^sup>2 * ((cos ?t)\<^sup>2 + (sin ?t)\<^sup>2)"
    by (simp only: distrib_left)
  also have "\<dots> = (cos ?p * ?d)\<^sup>2"
    by simp
  finally have "norm3 (cross (vsub (target c) (position c)) (up c)) = \<bar>cos ?p * ?d\<bar>"
    by (simp only: real_sqrt_abs)
  with cp d show ?thesis
    by simp
qed

lemma translate_inv:
  "cam_inv c \<Longrightarrow> cam_inv (c\<lparr>position := vadd (position c) v, target := vadd (target c) v\<rparr>)"
  "cam_inv c \<Longrightarrow> cam_inv (c\<lparr>position := vsub (position c) v, target := vsub (target c) v\<rparr>)"
  by (cases "target c"; cases v;
      cases "smul (spherical_direction (theta c) (phi c)) (camera.distance c)";
      simp add: cam_inv_def)+

lemma translate_ok:
  "cam_ok c \<Longrightarrow> cam_ok (c\<lparr>position := vadd (position c) v, target := vadd (target c) v\<rparr>)"
  "cam_ok c \<Longrightarrow> cam_ok (c\<lparr>position := vsub (position c) v, target := vsub (target c) v\<rparr>)"
  using translate_inv [of c v] by (simp_all add: cam_ok_def)

lemma move_forward_ok: "cam_ok c \<Longrightarrow> \<exists>c'. move_forward c = Inr c' \<and> cam_ok c'"
  using direction_nonzero [of c] by (simp add: move_forward_def normalize_def translate_ok)

lemma move_backward_ok: "cam_ok c \<Longrightarrow> \<exists>c'. move_backward c = Inr c' \<and> cam_ok c'"
  using direction_nonzero [of c] by (simp add: move_backward_def normalize_def translate_ok)

lemma move_left_ok: "cam_ok c \<Longrightarrow> \<exists>c'. move_left c = Inr c' \<and> cam_ok c'"
  using right_nonzero [of c] by (simp add: move_left_def normalize_def translate_ok)

lemma move_right_ok: "cam_ok c \<Longrightarrow> \<exists>c'. move_right c = Inr c' \<and> cam_ok c'"
  using right_nonzero [of c] by (simp add: move_right_def normalize_def translate_ok)

lemma move_up_ok: "cam_ok c \<Longrightarrow> cam_ok (move_up c)"
  by (simp add: move_up_def translate_ok)

lemma move_down_ok: "cam_ok c \<Longrightarrow> cam_ok (move_down c)"
  by (simp add: move_down_def translate_ok)

lemma rotate_horizontal_ok: "cam_ok c \<Longrightarrow> cam_ok (rotate_horizontal c delta)"
  using update_position_inv by (simp add: cam_ok_def rotate_horizontal_def)

lemma rotate_vertical_ok: "cam_ok c \<Longrightarrow> cam_ok (rotate_vertical c delta)"
  using update_position_inv by (simp add: cam_ok_def rotate_vertical_def Let_def)

lemma zoom_in_ok: "cam_ok c \<Longrightarrow> cam_ok (zoom_in c)"
  using update_position_inv by (simp add: cam_ok_def zoom_in_def Let_def)

lemma zoom_out_ok: "cam_ok c \<Longrightarrow> cam_ok (zoom_out c)"
  using update_position_inv by (simp add: cam_ok_def zoom_out_def Let_def)


subsection \<open>The default state\<close>

text \<open>
  The default eye \<open>(30, 20, 30)\<close> looks at the origin from distance \<open>sqrt 2200\<close>, at yaw 45
  degrees and a pitch between 0 and 30 degrees.
\<close>

lemma sqrt_2200_bounds: "40 < sqrt 2200" "sqrt 2200 < 500"
  by (rule real_less_rsqrt, simp) (rule real_less_lsqrt, simp_all)

lemma default_ratio_strict: "0 < 20 / sqrt 2200" "20 / sqrt 2200 < 1 / 2"
  using sqrt_2200_bounds by (simp_all add: field_simps)

lemma default_ratio: "- 1 \<le> 20 / sqrt 2200" "20 / sqrt 2200 \<le> 1"
  using default_ratio_strict by linarith+

lemma default_pitch_rad: "0 < arcsin (20 / sqrt 2200)" "arcsin (20 / sqrt 2200) < pi / 6"
proof -
  have "arcsin 0 < arcsin (20 / sqrt 2200)"
    by (rule arcsin_less_arcsin) (rule default_ratio default_ratio_strict | simp)+
  then show "0 < arcsin (20 / sqrt 2200)"
    by simp
  have "arcsin (20 / sqrt 2200) < arcsin (1 / 2)"
    by (rule arcsin_less_arcsin) (rule default_ratio default_ratio_strict | simp)+
  then show "arcsin (20 / sqrt 2200) < pi / 6"
    by simp
qed

lemma default_pitch: "0 < arcsin (20 / sqrt 2200) * 180 / pi"
  "arcsin (20 / sqrt 2200) * 180 / pi < 30"
proof -
  show "0 < arcsin (20 / sqrt 2200) * 180 / pi"
    using default_pitch_rad(1) pi_gt_zero by simp
  have "arcsin (20 / sqrt 2200) * 180 < pi / 6 * 180"
    using default_pitch_rad(2) by simp
  then have "arcsin (20 / sqrt 2200) * 180 / pi < pi / 6 * 180 / pi"
    using pi_gt_zero by (simp only: divide_strict_right_mono)
  also have "\<dots> = 30"
    by simp
  finally show "arcsin (20 / sqrt 2200) * 180 / pi < 30" .
qed

lemma default_sin: "sin (arcsin (20 / sqrt 2200)) * sqrt 2200 = 20"
proof -
  have "sin (arcsin (20 / sqrt 2200)) = 20 / sqrt 2200"
    by (rule sin_arcsin) (rule default_ratio)+
  then show ?thesis by simp
qed

lemma default_cos: "cos (arcsin (20 / sqrt 2200)) * (sqrt 2 / 2) * sqrt 2200 = 30"
proof -
  have "cos (arcsin (20 / sqrt 2200)) = sqrt (1 - (20 / sqrt 2200)\<^sup>2)"
    by (rule cos_arcsin) (rule default_ratio)+
  also have "1 - (20 / sqrt 2200)\<^sup>2 = 9 / 11"
    by (simp add: power_divide)
  finally have "cos (arcsin (20 / sqrt 2200)) * sqrt 2 * sqrt 2200 = sqrt (9 / 11) * sqrt 2 * sqrt 2200"
    by simp
  also have "\<dots> = sqrt (9 / 11 * 2 * 2200)"
    by (simp only: real_sqrt_mult)
  also have "9 / 11 * 2 * 2200 = (60::real)\<^sup>2"
    by simp
  also have "sqrt ((60::real)\<^sup>2) = 60"
    by simp
  finally show ?thesis by simp
qed

lemma default_yaw: "atan2 30 30 * 180 / pi = 45"
  by (simp add: atan2_def arctan_one)

lemma default_norm: "norm3 (vsub (30, 20, 30) (0, 0, 0)) = sqrt 2200"
  by simp

lemma default_inv:
  "(30, 20, 30) =
     vadd (0, 0, 0)
       (smul (spherical_direction 45 (arcsin (20 / sqrt 2200) * 180 / pi)) (sqrt 2200))"
proof -
  have t: "45 * pi / 180 = pi / 4"
    by simp
  have p: "arcsin (20 / sqrt 2200) * 180 / pi * pi / 180 = arcsin (20 / sqrt 2200)"
    by simp
  show ?thesis
    unfolding spherical_direction_def t p sin_45 cos_45
    using default_sin default_cos by simp
qed

lemma Camera_init_eq:
  "Camera_init =
     \<lparr>position = (30, 20, 30), target = (0, 0, 0), up = (0, 1, 0),
      move_speed = 0.5, rotation_speed = 2, zoom_speed = 1,
      distance = sqrt 2200, theta = 45, phi = arcsin (20 / sqrt 2200) * 180 / pi\<rparr>"
  unfolding Camera_init_def Let_def fst_conv snd_conv default_norm default_yaw ..

lemma Camera_init_ok: "cam_ok Camera_init"
  unfolding Camera_init_eq cam_ok_def cam_inv_def
  using default_inv default_pitch sqrt_2200_bounds by simp

lemma reset_view_eq:
  "reset_view c =
     Inr (c\<lparr>position := (30, 20, 30), target := (0, 0, 0), camera.distance := sqrt 2200,
            theta := 45, phi := arcsin (20 / sqrt 2200) * 180 / pi\<rparr>)"
proof -
  have "sqrt 2200 \<noteq> 0"
    using sqrt_2200_bounds by simp
  then show ?thesis
    using default_yaw by (simp add: reset_view_def recalculate_spherical_def Let_def)
qed

lemma reset_view_ok:
  assumes "cam_ok c"
  shows "\<exists>c'. reset_view c = Inr c' \<and> cam_ok c'"
proof -
  have "cam_ok (c\<lparr>position := (30, 20, 30), target := (0, 0, 0), camera.distance := sqrt 2200,
            theta := 45, phi := arcsin (20 / sqrt 2200) * 180 / pi\<rparr>)"
    using assms default_inv default_pitch sqrt_2200_bounds
    by (simp add: cam_ok_def cam_inv_def)
  then show ?thesis
    by (simp add: reset_view_eq)
qed

subsection \<open>Sequences of operations\<close>

lemma cam_step_ok: "cam_ok c \<Longrightarrow> \<exists>c'. cam_step c x = Inr c' \<and> cam_ok c'"
  by (cases x)
    (simp_all add: rotate_horizontal_ok rotate_vertical_ok move_forward_ok move_backward_ok
      move_left_ok move_right_ok move_up_ok move_down_ok zoom_in_ok zoom_out_ok reset_view_ok)

lemma cam_run_ok: "cam_ok c \<Longrightarrow> \<exists>c'. cam_run c xs = Inr c' \<and> cam_ok c'"
proof (induction xs arbitrary: c)
  case Nil
  then show ?case by simp
next
  case (Cons x xs)
  from cam_step_ok [OF Cons.prems, of x]
  obtain c1 where s: "cam_step c x = Inr c1" and ok: "cam_ok c1"
    by blast
  from Cons.IH [OF ok] show ?case
    by (simp add: s)
qed


text \<open>
  Claim C3: from the default camera, every finite sequence of the public operations runs
  to a camera (no operation fails), and in that camera the eye is the focus plus distance
  times the unit vector \<open>(cos phi * sin theta, sin phi, cos phi * cos theta)\<close> of yaw
  \<open>theta\<close> and pitch \<open>phi\<close> in degrees, in exact real arithmetic. The eye handed to
  \<^verbatim>\<open>gluLookAt\<close> is that position.
\<close>

theorem camera_eye_invariant:
  "\<exists>c. cam_run Camera_init ops = Inr c
       \<and> position c =
           vadd (target c)
             (smul (cos (phi c * pi / 180) * sin (theta c * pi / 180),
                    sin (phi c * pi / 180),
                    cos (phi c * pi / 180) * cos (theta c * pi / 180)) (camera.distance c))
       \<and> fst (apply_view_matrix c) =
           vadd (fst (snd (apply_view_matrix c)))
             (smul (spherical_direction (theta c) (phi c)) (camera.distance c))"
proof -
  from cam_run_ok [OF Camera_init_ok, of ops]
  obtain c where "cam_run Camera_init ops = Inr c" and "cam_ok c"
    by blast
  then show ?thesis
    by (simp add: cam_ok_def cam_inv_def apply_view_matrix_def spherical_direction_def)
qed

theorem camera_eye_invariant_witness:
  "\<exists>c. cam_run Camera_init [ZoomIn, MoveLeft, RotateVertical 200, MoveForward, ResetView,
            RotateHorizontal (- 3), MoveUp] = Inr c
       \<and> position c =
           vadd (target c)
             (smul (cos (phi c * pi / 180) * sin (theta c * pi / 180),
                    sin (phi c * pi / 180),
                    cos (phi c * pi / 180) * cos (theta c * pi / 180)) (camera.distance c))
       \<and> fst (apply_view_matrix c) =
           vadd (fst (snd (apply_view_matrix c)))
             (smul (spherical_direction (theta c) (phi c)) (camera.distance c))"
  by (rule camera_eye_invariant)

text \<open>
  Claim C4: from the default camera, after every finite sequence of operations the pitch
  is strictly between -89 and 89 degrees. A vertical rotation whose candidate pitch is
  not strictly inside that band leaves the pitch as it was (it is dropped, not clamped);
  one whose candidate is inside sets the pitch to the candidate.
\<close>

theorem pitch_stays_in_band:
  "(\<exists>c'. cam_run Camera_init ops = Inr c' \<and> - 89 < phi c' \<and> phi c' < 89)
   \<and> (\<not> (- 89 < phi c + delta * camera.rotation_speed c
           \<and> phi c + delta * camera.rotation_speed c < 89)
        \<longrightarrow> phi (rotate_vertical c delta) = phi c)
   \<and> (- 89 < phi c + delta * camera.rotation_speed c
        \<and> phi c + delta * camera.rotation_speed c < 89
        \<longrightarrow> phi (rotate_vertical c delta) = phi c + delta * camera.rotation_speed c)"
proof (intro conjI)
  from cam_run_ok [OF Camera_init_ok, of ops]
  show "\<exists>c'. cam_run Camera_init ops = Inr c' \<and> - 89 < phi c' \<and> phi c' < 89"
    by (auto simp: cam_ok_def)
qed (simp_all add: rotate_vertical_def Let_def)

theorem pitch_stays_in_band_witness:
  "(\<exists>c'. cam_run Camera_init [RotateVertical 100, RotateVertical (- 31), RotateVertical (- 31)]
            = Inr c' \<and> - 89 < phi c' \<and> phi c' < 89)
   \<and> \<not> (- 89 < phi Camera_init + 100 * camera.rotation_speed Camera_init
         \<and> phi Camera_init + 100 * camera.rotation_speed Camera_init < 89)
   \<and> phi (rotate_vertical Camera_init 100) = phi Camera_init
   \<and> (- 89 < phi Camera_init + 1 * camera.rotation_speed Camera_init
         \<and> phi Camera_init + 1 * camera.rotation_speed Camera_init < 89)
   \<and> phi (rotate_vertical Camera_init 1) = phi Camera_init + 1 * camera.rotation_speed Camera_init"
proof -
  have p: "0 < phi Camera_init" "phi Camera_init < 30" "camera.rotation_speed Camera_init = 2"
    using default_pitch by (simp_all add: Camera_init_eq)
  have far: "\<not> (- 89 < phi Camera_init + 100 * camera.rotation_speed Camera_init
         \<and> phi Camera_init + 100 * camera.rotation_speed Camera_init < 89)"
    using p by simp
  have near: "- 89 < phi Camera_init + 1 * camera.rotation_speed Camera_init
         \<and> phi Camera_init + 1 * camera.rotation_speed Camera_init < 89"
    using p by simp
  note t = pitch_stays_in_band
  from t [of "[RotateVertical 100, RotateVertical (- 31), RotateVertical (- 31)]"]
  have run: "\<exists>c'. cam_run Camera_init [RotateVertical 100, RotateVertical (- 31), RotateVertical (- 31)]
            = Inr c' \<and> - 89 < phi c' \<and> phi c' < 89"
    by (rule conjunct1)
  from t [of _ Camera_init 100] far
  have dropped: "phi (rotate_vertical Camera_init 100) = phi Camera_init"
    by blast
  from t [of _ Camera_init 1] near
  have applied: "phi (rotate_vertical Camera_init 1) = phi Camera_init + 1 * camera.rotation_speed Camera_init"
    by blast
  show ?thesis
    using run far dropped near applied by blast
qed

text \<open>
  In exact real arithmetic, from the default camera and after every finite sequence of
  operations, the distance is in \<open>[10, 500]\<close>, the two vectors that the four moves
  normalise have a norm other than 0, and each of the four moves returns a camera.
  Zooming in never leaves a distance below 10, zooming out never one above 500.
\<close>

lemma distance_clamped_exact:
  "(\<exists>c. cam_run Camera_init ops = Inr c
        \<and> 10 \<le> camera.distance c \<and> camera.distance c \<le> 500 \<and> camera.distance c \<noteq> 0
        \<and> norm3 (vsub (target c) (position c)) \<noteq> 0
        \<and> norm3 (cross (vsub (target c) (position c)) (up c)) \<noteq> 0
        \<and> (\<exists>c1 c2 c3 c4. move_forward c = Inr c1 \<and> move_backward c = Inr c2
              \<and> move_left c = Inr c3 \<and> move_right c = Inr c4))
   \<and> 10 \<le> camera.distance (zoom_in c0)
   \<and> camera.distance (zoom_out c0) \<le> 500"
proof (intro conjI)
  from cam_run_ok [OF Camera_init_ok, of ops]
  obtain c where run: "cam_run Camera_init ops = Inr c" and ok: "cam_ok c"
    by blast
  have d: "10 \<le> camera.distance c" "camera.distance c \<le> 500" "camera.distance c \<noteq> 0"
    using ok by (simp_all add: cam_ok_def)
  from move_forward_ok [OF ok] move_backward_ok [OF ok] move_left_ok [OF ok] move_right_ok [OF ok]
  have m: "\<exists>c1 c2 c3 c4. move_forward c = Inr c1 \<and> move_backward c = Inr c2
              \<and> move_left c = Inr c3 \<and> move_right c = Inr c4"
    by blast
  show "\<exists>c. cam_run Camera_init ops = Inr c
        \<and> 10 \<le> camera.distance c \<and> camera.distance c \<le> 500 \<and> camera.distance c \<noteq> 0
        \<and> norm3 (vsub (target c) (position c)) \<noteq> 0
        \<and> norm3 (cross (vsub (target c) (position c)) (up c)) \<noteq> 0
        \<and> (\<exists>c1 c2 c3 c4. move_forward c = Inr c1 \<and> move_backward c = Inr c2
              \<and> move_left c = Inr c3 \<and> move_right c = Inr c4)"
    using run d direction_nonzero [OF ok] right_nonzero [OF ok] m by blast
qed (simp_all add: zoom_in_def zoom_out_def Let_def)

subsection \<open>The eye in float32\<close>



end
